theory Spec2Isabelle
  imports Complex_Main "HOL-Library.Word"
begin

section \<open>Data of App.tsx\<close>

text \<open>
  The interface \<open>TranscriptSegment\<close> has the two fields \<open>text\<close> and \<open>speakerId\<close> and
  no other. The payload \<open>data\<close> of a socket event is untyped in the source, so a field
  that the backend leaves out reads as \<open>undefined\<close>: \<open>None\<close> stands for it.
\<close>

record TranscriptSegment =
  seg_text :: "string option"
  seg_speakerId :: "string option"

text \<open>The fields that the four transcript handlers read from \<open>data\<close>.\<close>

record payload =
  p_transcript :: "string option"
  p_text :: "string option"
  p_speakerId :: "string option"

text \<open>
  JavaScript's \<open>a || b\<close> on values that are a string or \<open>undefined\<close>: \<open>undefined\<close>
  and the empty string are falsy, and then the result is \<open>b\<close>.
\<close>

definition js_or :: "string option \<Rightarrow> string option \<Rightarrow> string option" where
  "js_or a b = (case a of None \<Rightarrow> b | Some x \<Rightarrow> (if x = [] then b else Some x))"

text \<open>The inbound socket events, named as in \<open>socket.on\<close>, with what the handler reads.\<close>

datatype event =
    join_room string
  | partial_result payload
  | final_result payload
  | transcribe_partial payload
  | transcribe_final payload
  | transcription_progress real
  | chapter_titles string

text \<open>What the component does to the outside world, in the order it does it.\<close>

datatype effect =
    SocketConnect string
  | SocketDisconnect
  | SocketEmit string string "8 word list"
  | HttpPost string string
  | ConsoleLog string
  | ConsoleError string
  | Toast string
  | GetUserMedia

datatype socket_status = Connected | Disconnected

datatype recorder_status = Inactive | Recording | Stopped

text \<open>
  A \<open>RecordRTC\<close> instance: the stream it was created on and whether it is capturing.
  The instances live in a store indexed by creation order; \<open>recordRTCRef\<close> holds an index.
\<close>

record recorder =
  r_stream :: nat
  r_status :: recorder_status

record app_state =
  recording :: bool
  room :: string
  transcripts :: "TranscriptSegment list"
  chapterTitles :: string
  progress :: real
  socketRef :: "socket_status option"
  recordRTCRef :: "nat option"
  recorders :: "recorder list"
  effects :: "effect list"

text \<open>How a control request ends: a parsed response, or a rejection of \<open>fetch\<close> or of
  \<open>resp.json()\<close>; both rejections land in the same \<open>catch\<close>.\<close>

datatype fetch_failure = FetchRejected | JsonRejected

datatype fetch_result = Responded string | Failed fetch_failure

text \<open>How \<open>getUserMedia\<close> ends: a stream, or a rejection.\<close>

datatype media_result = MediaGranted nat | MediaRejected

datatype error = PermissionError

section \<open>The component\<close>

text \<open>The \<open>useState\<close> and \<open>useRef\<close> initial values; the room id is drawn once.\<close>

definition initial :: "string \<Rightarrow> app_state" where
  "initial r =
     \<lparr>recording = False, room = r, transcripts = [], chapterTitles = [], progress = 0,
      socketRef = None, recordRTCRef = None, recorders = [], effects = []\<rparr>"

text \<open>The effect that opens the socket, and its cleanup.\<close>

definition useEffect_mount :: "app_state \<Rightarrow> app_state" where
  "useEffect_mount s =
     s\<lparr>socketRef := Some Connected, effects := effects s @ [SocketConnect (room s)]\<rparr>"

definition useEffect_cleanup :: "app_state \<Rightarrow> app_state" where
  "useEffect_cleanup s =
     (case socketRef s of
        None \<Rightarrow> s
      | Some c \<Rightarrow> s\<lparr>socketRef := Some Disconnected, effects := effects s @ [SocketDisconnect]\<rparr>)"

text \<open>The seven handlers registered with \<open>socket.on\<close>.\<close>

fun on_event :: "event \<Rightarrow> app_state \<Rightarrow> app_state" where
  "on_event (join_room r) s = s\<lparr>effects := effects s @ [ConsoleLog ''Joined room:'']\<rparr>"
| "on_event (partial_result d) s =
     s\<lparr>transcripts := transcripts s @
        [\<lparr>seg_text = p_text d, seg_speakerId = js_or (p_speakerId d) (Some ''?'')\<rparr>]\<rparr>"
| "on_event (final_result d) s =
     s\<lparr>transcripts := transcripts s @
        [\<lparr>seg_text = p_text d, seg_speakerId = js_or (p_speakerId d) (Some ''?'')\<rparr>]\<rparr>"
| "on_event (transcribe_partial d) s =
     s\<lparr>transcripts := transcripts s @
        [\<lparr>seg_text = p_text d, seg_speakerId = js_or (p_speakerId d) (Some ''?'')\<rparr>]\<rparr>"
| "on_event (transcribe_final d) s =
     s\<lparr>transcripts := transcripts s @
        [\<lparr>seg_text = js_or (p_transcript d) (p_text d),
          seg_speakerId = js_or (p_speakerId d) (Some ''?'')\<rparr>]\<rparr>"
| "on_event (transcription_progress v) s = s\<lparr>progress := v\<rparr>"
| "on_event (chapter_titles t) s =
     s\<lparr>chapterTitles := t, effects := effects s @ [Toast ''Chapter Titles Generated'']\<rparr>"

text \<open>Events handled one after the other, in the order of receipt.\<close>

definition on_events :: "event list \<Rightarrow> app_state \<Rightarrow> app_state" where
  "on_events evs s = foldl (\<lambda>t e. on_event e t) s evs"

text \<open>\<open>initTranscription\<close>: the request, then the log of the response or of the error.\<close>

definition initTranscription :: "fetch_result \<Rightarrow> app_state \<Rightarrow> app_state" where
  "initTranscription fr s =
     (let s1 = s\<lparr>effects := effects s @
                  [HttpPost ''http://localhost:8000/start_transcription_ct'' (room s)]\<rparr>
      in case fr of
           Responded j \<Rightarrow>
             s1\<lparr>effects := effects s1 @ [ConsoleLog ''start_transcription_ct response:'']\<rparr>
         | Failed f \<Rightarrow>
             s1\<lparr>effects := effects s1 @
                  [ConsoleError ''Error calling /start_transcription_ct:'']\<rparr>)"

text \<open>The four state setters that open \<open>startRecording\<close> ("Reset UI state").\<close>

definition resetUIState :: "app_state \<Rightarrow> app_state" where
  "resetUIState s =
     (let s1 = s\<lparr>transcripts := []\<rparr>;
          s2 = s1\<lparr>progress := 0\<rparr>;
          s3 = s2\<lparr>chapterTitles := []\<rparr>
      in s3\<lparr>recording := True\<rparr>)"

text \<open>
  The rest of \<open>startRecording\<close> after \<open>initTranscription\<close>: \<open>getUserMedia\<close>, whose
  rejection leaves the function at once, then a new \<open>RecordRTC\<close> stored in
  \<open>recordRTCRef\<close> and started.
\<close>

definition captureMicrophone :: "media_result \<Rightarrow> app_state \<Rightarrow> (error + unit) \<times> app_state" where
  "captureMicrophone mr s =
     (let s1 = s\<lparr>effects := effects s @ [GetUserMedia]\<rparr>
      in case mr of
           MediaRejected \<Rightarrow> (Inl PermissionError, s1)
         | MediaGranted st \<Rightarrow>
             (let rid = length (recorders s1);
                  s2 = s1\<lparr>recorders := recorders s1 @ [\<lparr>r_stream = st, r_status = Inactive\<rparr>],
                          recordRTCRef := Some rid\<rparr>;
                  s3 = s2\<lparr>recorders := (recorders s2)[rid := (recorders s2 ! rid)\<lparr>r_status := Recording\<rparr>]\<rparr>
              in (Inr (), s3)))"

definition startRecording ::
  "fetch_result \<Rightarrow> media_result \<Rightarrow> app_state \<Rightarrow> (error + unit) \<times> app_state" where
  "startRecording fr mr s = captureMicrophone mr (initTranscription fr (resetUIState s))"

text \<open>
  \<open>stopRecording\<close>: the flag, the request with its log, then the recorder in
  \<open>recordRTCRef\<close>, when there is one. An index outside the store does not occur (the
  reference only ever receives the index of a stored instance); the update leaves the
  store as it is there.
\<close>

definition stopRecording :: "fetch_result \<Rightarrow> app_state \<Rightarrow> app_state" where
  "stopRecording fr s =
     (let s1 = s\<lparr>recording := False\<rparr>;
          s2 = s1\<lparr>effects := effects s1 @
                  [HttpPost ''http://localhost:8000/stop_transcription'' (room s1)]\<rparr>;
          s3 = (case fr of
                  Responded j \<Rightarrow>
                    s2\<lparr>effects := effects s2 @ [ConsoleLog ''stop_transcription response:'']\<rparr>
                | Failed f \<Rightarrow>
                    s2\<lparr>effects := effects s2 @
                         [ConsoleError ''Error calling /stop_transcription:'']\<rparr>)
      in case recordRTCRef s3 of
           None \<Rightarrow> s3
         | Some rid \<Rightarrow>
             (if rid < length (recorders s3)
              then s3\<lparr>recorders := (recorders s3)[rid := (recorders s3 ! rid)\<lparr>r_status := Stopped\<rparr>]\<rparr>
              else s3))"

text \<open>The \<open>ondataavailable\<close> callback: one \<open>audio_data\<close> message, if the socket is set.\<close>

definition ondataavailable :: "8 word list \<Rightarrow> app_state \<Rightarrow> app_state" where
  "ondataavailable bytes s =
     (case socketRef s of
        None \<Rightarrow> s
      | Some c \<Rightarrow> s\<lparr>effects := effects s @ [SocketEmit ''audio_data'' (room s) bytes]\<rparr>)"

section \<open>The component driven from outside\<close>

text \<open>
  What can happen to the mounted component. The two buttons carry \<open>isDisabled\<close>:
  Start is disabled while \<open>recording\<close>, Stop while not \<open>recording\<close>, and a disabled
  button does not call its handler. A recorder calls \<open>ondataavailable\<close> only while it
  is capturing, and the socket delivers events only while it is connected. A click stands
  for a handler call that no other action overlaps; what happens while a handler waits
  at an \<open>await\<close> is the matter of the section on suspension points.
\<close>

datatype action =
    ClickStart fetch_result media_result
  | ClickStop fetch_result
  | Receive event
  | Chunk nat "8 word list"
  | Unmount

fun dispatch :: "action \<Rightarrow> app_state \<Rightarrow> app_state" where
  "dispatch (ClickStart fr mr) s = (if recording s then s else snd (startRecording fr mr s))"
| "dispatch (ClickStop fr) s = (if recording s then stopRecording fr s else s)"
| "dispatch (Receive e) s = (if socketRef s = Some Connected then on_event e s else s)"
| "dispatch (Chunk rid bytes) s =
     (if rid < length (recorders s) then
        (if r_status (recorders s ! rid) = Recording then ondataavailable bytes s else s)
      else s)"
| "dispatch Unmount s = useEffect_cleanup s"

definition run :: "action list \<Rightarrow> app_state \<Rightarrow> app_state" where
  "run as s = foldl (\<lambda>t a. dispatch a t) s as"

text \<open>The effects that send audio.\<close>

fun is_audio :: "effect \<Rightarrow> bool" where
  "is_audio (SocketEmit n r b) = True"
| "is_audio e = False"

text \<open>
  The segments an event contributes to the log: one for each of the four transcript
  events, none for the others.
\<close>

fun is_transcript_event :: "event \<Rightarrow> bool" where
  "is_transcript_event (partial_result d) = True"
| "is_transcript_event (final_result d) = True"
| "is_transcript_event (transcribe_partial d) = True"
| "is_transcript_event (transcribe_final d) = True"
| "is_transcript_event e = False"

fun segments_of :: "event \<Rightarrow> TranscriptSegment list" where
  "segments_of (partial_result d) =
     [\<lparr>seg_text = p_text d, seg_speakerId = js_or (p_speakerId d) (Some ''?'')\<rparr>]"
| "segments_of (final_result d) =
     [\<lparr>seg_text = p_text d, seg_speakerId = js_or (p_speakerId d) (Some ''?'')\<rparr>]"
| "segments_of (transcribe_partial d) =
     [\<lparr>seg_text = p_text d, seg_speakerId = js_or (p_speakerId d) (Some ''?'')\<rparr>]"
| "segments_of (transcribe_final d) =
     [\<lparr>seg_text = js_or (p_transcript d) (p_text d),
       seg_speakerId = js_or (p_speakerId d) (Some ''?'')\<rparr>]"
| "segments_of e = []"

section \<open>Suspension points\<close>

text \<open>
  An async handler runs in pieces: each piece runs without interruption up to the next
  \<open>await\<close>, and while the handler waits there the socket handlers run on the events
  that arrive. \<open>startRecording\<close> waits three times: for \<open>fetch\<close> (line 99), for
  \<open>resp.json()\<close> (line 104) when \<open>fetch\<close> gave a response, and for \<open>getUserMedia\<close>
  (line 123). \<open>stopRecording\<close> waits for \<open>fetch\<close> (line 152) and \<open>resp.json()\<close>
  (line 157).
\<close>

text \<open>
  The statements of \<open>startRecording\<close> up to its first \<open>await\<close>, one by one in the order
  of the source: the four setters (lines 114 to 117), then the call of \<open>fetch\<close> in
  \<open>initTranscription\<close> (line 99).
\<close>

definition startRecording_prefix :: "(app_state \<Rightarrow> app_state) list" where
  "startRecording_prefix =
     [\<lambda>s. s\<lparr>transcripts := []\<rparr>,
      \<lambda>s. s\<lparr>progress := 0\<rparr>,
      \<lambda>s. s\<lparr>chapterTitles := []\<rparr>,
      \<lambda>s. s\<lparr>recording := True\<rparr>,
      \<lambda>s. s\<lparr>effects := effects s @
              [HttpPost ''http://localhost:8000/start_transcription_ct'' (room s)]\<rparr>]"

text \<open>The state after each statement of a list, and the state after the last.\<close>

fun states_of :: "(app_state \<Rightarrow> app_state) list \<Rightarrow> app_state \<Rightarrow> app_state list" where
  "states_of [] s = []"
| "states_of (f # fs) s = f s # states_of fs (f s)"

definition exec :: "(app_state \<Rightarrow> app_state) list \<Rightarrow> app_state \<Rightarrow> app_state" where
  "exec fs s = foldl (\<lambda>t f. f t) s fs"

text \<open>Whether \<open>resp.json()\<close> is awaited: not when \<open>fetch\<close> itself rejects.\<close>

fun json_awaited :: "fetch_result \<Rightarrow> bool" where
  "json_awaited (Failed FetchRejected) = False"
| "json_awaited fr = True"

text \<open>What \<open>initTranscription\<close> does once its request has ended (line 105 or 107).\<close>

definition initTranscription_settled :: "fetch_result \<Rightarrow> app_state \<Rightarrow> app_state" where
  "initTranscription_settled fr s =
     (case fr of
        Responded j \<Rightarrow>
          s\<lparr>effects := effects s @ [ConsoleLog ''start_transcription_ct response:'']\<rparr>
      | Failed f \<Rightarrow>
          s\<lparr>effects := effects s @ [ConsoleError ''Error calling /start_transcription_ct:'']\<rparr>)"

text \<open>What \<open>startRecording\<close> does once \<open>getUserMedia\<close> has ended (lines 123 to 143).\<close>

definition getUserMedia_settled :: "media_result \<Rightarrow> app_state \<Rightarrow> (error + unit) \<times> app_state" where
  "getUserMedia_settled mr s =
     (case mr of
        MediaRejected \<Rightarrow> (Inl PermissionError, s)
      | MediaGranted st \<Rightarrow>
          (let rid = length (recorders s);
               s1 = s\<lparr>recorders := recorders s @ [\<lparr>r_stream = st, r_status = Inactive\<rparr>],
                      recordRTCRef := Some rid\<rparr>;
               s2 = s1\<lparr>recorders := (recorders s1)[rid := (recorders s1 ! rid)\<lparr>r_status := Recording\<rparr>]\<rparr>
           in (Inr (), s2)))"

text \<open>
  \<open>startRecording\<close> with the events that arrive while it waits: \<open>during_fetch\<close>,
  \<open>during_json\<close> and \<open>during_media\<close> are handled at the three suspension points.
\<close>

definition startRecording_interleaved ::
  "fetch_result \<Rightarrow> media_result \<Rightarrow> event list \<Rightarrow> event list \<Rightarrow> event list \<Rightarrow> app_state
     \<Rightarrow> (error + unit) \<times> app_state" where
  "startRecording_interleaved fr mr during_fetch during_json during_media s =
     (let s1 = exec startRecording_prefix s;
          s2 = on_events during_fetch s1;
          s3 = (if json_awaited fr then on_events during_json s2 else s2);
          s4 = initTranscription_settled fr s3;
          s5 = s4\<lparr>effects := effects s4 @ [GetUserMedia]\<rparr>;
          s6 = on_events during_media s5
      in getUserMedia_settled mr s6)"

text \<open>\<open>stopRecording\<close> with the events that arrive while it waits.\<close>

definition stopRecording_interleaved ::
  "fetch_result \<Rightarrow> event list \<Rightarrow> event list \<Rightarrow> app_state \<Rightarrow> app_state" where
  "stopRecording_interleaved fr during_fetch during_json s =
     (let s1 = s\<lparr>recording := False\<rparr>;
          s2 = s1\<lparr>effects := effects s1 @
                  [HttpPost ''http://localhost:8000/stop_transcription'' (room s1)]\<rparr>;
          s3 = on_events during_fetch s2;
          s4 = (if json_awaited fr then on_events during_json s3 else s3);
          s5 = (case fr of
                  Responded j \<Rightarrow>
                    s4\<lparr>effects := effects s4 @ [ConsoleLog ''stop_transcription response:'']\<rparr>
                | Failed f \<Rightarrow>
                    s4\<lparr>effects := effects s4 @
                         [ConsoleError ''Error calling /stop_transcription:'']\<rparr>)
      in case recordRTCRef s5 of
           None \<Rightarrow> s5
         | Some rid \<Rightarrow>
             (if rid < length (recorders s5)
              then s5\<lparr>recorders := (recorders s5)[rid := (recorders s5 ! rid)\<lparr>r_status := Stopped\<rparr>]\<rparr>
              else s5))"

text \<open>The progress and the chapter titles that a sequence of events leaves behind.\<close>

fun progress_after :: "real \<Rightarrow> event list \<Rightarrow> real" where
  "progress_after p [] = p"
| "progress_after p (transcription_progress v # es) = progress_after v es"
| "progress_after p (e # es) = progress_after p es"

fun chapterTitles_after :: "string \<Rightarrow> event list \<Rightarrow> string" where
  "chapterTitles_after c [] = c"
| "chapterTitles_after c (chapter_titles t # es) = chapterTitles_after t es"
| "chapterTitles_after c (e # es) = chapterTitles_after c es"

section \<open>Helper lemmas\<close>

lemma on_event_transcripts:
  "transcripts (on_event e s) = transcripts s @ segments_of e"
  by (cases e) simp_all

lemma on_events_transcripts:
  "transcripts (on_events evs s) = transcripts s @ concat (map segments_of evs)"
  unfolding on_events_def
  by (induction evs arbitrary: s) (simp_all add: on_event_transcripts)

lemma segments_of_transcript_event:
  "is_transcript_event e \<Longrightarrow> length (segments_of e) = 1"
  by (cases e) simp_all

lemma length_concat_segments:
  "list_all is_transcript_event evs \<Longrightarrow> length (concat (map segments_of evs)) = length evs"
  by (induction evs) (simp_all add: segments_of_transcript_event)

lemma chunk_without_recorder:
  "recorders s = [] \<Longrightarrow> dispatch (Chunk rid bytes) s = s"
  by simp

lemma chunks_without_recorder:
  "recorders s = [] \<Longrightarrow> run (map (case_prod Chunk) cs) s = s"
  unfolding run_def
  by (induction cs arbitrary: s) (simp_all add: case_prod_beta)

lemma on_events_snoc:
  "on_events (evs @ [e]) s = on_event e (on_events evs s)"
  by (simp add: on_events_def)

lemma on_events_append:
  "on_events (as @ bs) s = on_events bs (on_events as s)"
  by (simp add: on_events_def)

lemma on_events_Cons:
  "on_events (e # es) s = on_events es (on_event e s)"
  by (simp add: on_events_def)

lemma on_events_progress:
  "progress (on_events evs s) = progress_after (progress s) evs"
proof (induction evs arbitrary: s)
  case Nil
  show ?case by (simp add: on_events_def)
next
  case (Cons e es)
  show ?case by (cases e) (simp_all add: on_events_Cons Cons.IH)
qed

lemma on_events_chapterTitles:
  "chapterTitles (on_events evs s) = chapterTitles_after (chapterTitles s) evs"
proof (induction evs arbitrary: s)
  case Nil
  show ?case by (simp add: on_events_def)
next
  case (Cons e es)
  show ?case by (cases e) (simp_all add: on_events_Cons Cons.IH)
qed

lemma progress_after_append:
  "progress_after p (as @ bs) = progress_after (progress_after p as) bs"
  by (induction p as rule: progress_after.induct) simp_all

lemma chapterTitles_after_append:
  "chapterTitles_after c (as @ bs) = chapterTitles_after (chapterTitles_after c as) bs"
  by (induction c as rule: chapterTitles_after.induct) simp_all

lemma on_events_recordRTCRef:
  "recordRTCRef (on_events evs s) = recordRTCRef s"
proof (induction evs arbitrary: s)
  case Nil
  show ?case by (simp add: on_events_def)
next
  case (Cons e es)
  show ?case by (cases e) (simp_all add: on_events_Cons Cons.IH)
qed

lemma on_events_recorders:
  "recorders (on_events evs s) = recorders s"
proof (induction evs arbitrary: s)
  case Nil
  show ?case by (simp add: on_events_def)
next
  case (Cons e es)
  show ?case by (cases e) (simp_all add: on_events_Cons Cons.IH)
qed

lemma on_events_Nil:
  "on_events [] s = s"
  by (simp add: on_events_def)

lemma startRecording_interleaved_Nil:
  "startRecording_interleaved fr mr [] [] [] s = startRecording fr mr s"
  by (cases fr rule: json_awaited.cases; cases mr)
     (simp_all add: startRecording_interleaved_def startRecording_prefix_def exec_def
        initTranscription_settled_def getUserMedia_settled_def startRecording_def
        captureMicrophone_def initTranscription_def resetUIState_def Let_def on_events_Nil)

lemma stopRecording_interleaved_Nil:
  "stopRecording_interleaved fr [] [] s = stopRecording fr s"
  by (cases fr rule: json_awaited.cases)
     (simp_all add: stopRecording_interleaved_def stopRecording_def Let_def on_events_Nil)

lemmas interleaved_defs =
  startRecording_interleaved_def startRecording_prefix_def exec_def
  initTranscription_settled_def getUserMedia_settled_def Let_def

lemmas slice_simps =
  on_events_transcripts on_events_progress on_events_chapterTitles
  progress_after_append chapterTitles_after_append
  on_events_recordRTCRef on_events_recorders

lemmas start_defs =
  startRecording_def captureMicrophone_def initTranscription_def resetUIState_def Let_def

section \<open>Microphone acquisition fails\<close>

text \<open>
  C1, as stated, asks that the recording flag is false after a start whose microphone
  acquisition fails. On the mounted component, with the control request answered and
  \<open>getUserMedia\<close> rejected, the flag is true when \<open>startRecording\<close> is left.
\<close>

theorem C1_recording_stays_true_counterexample:
  "recording (snd (startRecording (Responded ''ok'') MediaRejected
      (useEffect_mount (initial ''room1'')))) \<noteq> False"
  by (simp add: start_defs useEffect_mount_def initial_def)

text \<open>
  C1, amended: when \<open>getUserMedia\<close> rejects, \<open>startRecording\<close> ends with that error
  (nothing in it catches the rejection), the recording flag set at its beginning stays
  true, no recorder is created, the recorder reference is untouched and the call sends
  no audio; on a freshly mounted component no later chunk callback sends audio either.
\<close>

theorem C1_mic_rejected:
  "fst (startRecording fr MediaRejected s) = Inl PermissionError
   \<and> recording (snd (startRecording fr MediaRejected s)) = True
   \<and> recorders (snd (startRecording fr MediaRejected s)) = recorders s
   \<and> recordRTCRef (snd (startRecording fr MediaRejected s)) = recordRTCRef s
   \<and> filter is_audio (effects (snd (startRecording fr MediaRejected s)))
       = filter is_audio (effects s)
   \<and> filter is_audio (effects (run (map (case_prod Chunk) cs)
         (snd (startRecording fr MediaRejected (useEffect_mount (initial r)))))) = []"
proof -
  let ?m = "useEffect_mount (initial r)"
  have a: "fst (startRecording fr MediaRejected s) = Inl PermissionError"
    by (simp add: start_defs)
  have b: "recording (snd (startRecording fr MediaRejected s)) = True"
    by (cases fr) (simp_all add: start_defs)
  have c: "recorders (snd (startRecording fr MediaRejected s)) = recorders s"
    by (cases fr) (simp_all add: start_defs)
  have d: "recordRTCRef (snd (startRecording fr MediaRejected s)) = recordRTCRef s"
    by (cases fr) (simp_all add: start_defs)
  have e: "filter is_audio (effects (snd (startRecording fr MediaRejected s)))
            = filter is_audio (effects s)"
    by (cases fr) (simp_all add: start_defs)
  have "recorders (snd (startRecording fr MediaRejected ?m)) = []"
    by (cases fr) (simp_all add: start_defs useEffect_mount_def initial_def)
  then have "run (map (case_prod Chunk) cs) (snd (startRecording fr MediaRejected ?m))
              = snd (startRecording fr MediaRejected ?m)"
    by (rule chunks_without_recorder)
  moreover have "filter is_audio (effects (snd (startRecording fr MediaRejected ?m))) = []"
    by (cases fr) (simp_all add: start_defs useEffect_mount_def initial_def)
  ultimately have f: "filter is_audio (effects (run (map (case_prod Chunk) cs)
         (snd (startRecording fr MediaRejected ?m)))) = []"
    by simp
  from a b c d e f show ?thesis by blast
qed

section \<open>Stop while not recording\<close>

text \<open>
  C2, as stated, asks that \<open>stopRecording\<close> called while not recording issues no
  \<open>stop_transcription\<close> request. On the freshly mounted component, where the flag is
  false, the call posts the request.
\<close>

theorem C2_stop_idle_posts_counterexample:
  "recording (useEffect_mount (initial ''room1'')) = False
   \<and> effects (stopRecording (Responded ''ok'') (useEffect_mount (initial ''room1'')))
       = [SocketConnect ''room1'',
          HttpPost ''http://localhost:8000/stop_transcription'' ''room1'',
          ConsoleLog ''stop_transcription response:'']"
  by (simp add: stopRecording_def useEffect_mount_def initial_def Let_def)

text \<open>
  C2, amended: \<open>stopRecording\<close> has no guard of its own. Called while the flag is
  false it leaves the flag false and the transcript log, the progress and the chapter
  titles as they are, and it still posts the \<open>stop_transcription\<close> request. The guard
  is the Stop button, disabled while not recording: a click on it then changes nothing
  and issues no request.
\<close>

theorem C2_stop_idle:
  assumes "\<not> recording s"
  shows "dispatch (ClickStop fr) s = s
   \<and> recording (stopRecording fr s) = False
   \<and> transcripts (stopRecording fr s) = transcripts s
   \<and> progress (stopRecording fr s) = progress s
   \<and> chapterTitles (stopRecording fr s) = chapterTitles s
   \<and> HttpPost ''http://localhost:8000/stop_transcription'' (room s)
        \<in> set (effects (stopRecording fr s))"
  using assms
  by (cases fr) (simp_all add: stopRecording_def Let_def split: option.splits)

theorem C2_stop_idle_witness:
  "\<not> recording (useEffect_mount (initial ''room1''))
   \<and> dispatch (ClickStop (Failed FetchRejected)) (useEffect_mount (initial ''room1''))
       = useEffect_mount (initial ''room1'')
   \<and> HttpPost ''http://localhost:8000/stop_transcription'' ''room1''
        \<in> set (effects (stopRecording (Failed FetchRejected)
                          (useEffect_mount (initial ''room1''))))"
  using C2_stop_idle [of "useEffect_mount (initial ''room1'')" "Failed FetchRejected"]
  by (simp add: useEffect_mount_def initial_def)

section \<open>Reset at start\<close>

text \<open>
  C3: whatever events were handled before, \<open>startRecording\<close> resets before it does
  anything to the outside. Going through its statements one by one, the first state
  that shows a new effect is the one in which the \<open>start_transcription_ct\<close> request has
  just been issued, and there the log is empty, the progress 0 and the chapter titles
  empty. Hence events that arrive while the call waits (for the request, for the
  microphone) are kept: when the call is left, the three values are those that the
  events of the waiting times produce from the reset values, and nothing from before
  the call is left in the log. \<open>stopRecording\<close> resets none of the three: it leaves
  them as the events before it and during its own waiting made them.
\<close>

theorem C3_reset_at_start:
  "dropWhile (\<lambda>t. effects t = effects (on_events evs s))
      (states_of startRecording_prefix (on_events evs s))
     = [exec startRecording_prefix (on_events evs s)]
   \<and> transcripts (exec startRecording_prefix (on_events evs s)) = []
   \<and> progress (exec startRecording_prefix (on_events evs s)) = 0
   \<and> chapterTitles (exec startRecording_prefix (on_events evs s)) = []
   \<and> effects (exec startRecording_prefix (on_events evs s))
       = effects (on_events evs s) @
           [HttpPost ''http://localhost:8000/start_transcription_ct'' (room (on_events evs s))]
   \<and> transcripts (snd (startRecording_interleaved fr mr ef ej em (on_events evs s)))
       = concat (map segments_of (ef @ (if json_awaited fr then ej else []) @ em))
   \<and> progress (snd (startRecording_interleaved fr mr ef ej em (on_events evs s)))
       = progress_after 0 (ef @ (if json_awaited fr then ej else []) @ em)
   \<and> chapterTitles (snd (startRecording_interleaved fr mr ef ej em (on_events evs s)))
       = chapterTitles_after [] (ef @ (if json_awaited fr then ej else []) @ em)
   \<and> startRecording_interleaved fr mr [] [] [] (on_events evs s)
       = startRecording fr mr (on_events evs s)
   \<and> transcripts (snd (startRecording fr mr (on_events evs s))) = []
   \<and> progress (snd (startRecording fr mr (on_events evs s))) = 0
   \<and> chapterTitles (snd (startRecording fr mr (on_events evs s))) = []
   \<and> transcripts (stopRecording_interleaved fr ef ej (on_events evs s))
       = transcripts (on_events evs s)
           @ concat (map segments_of (ef @ (if json_awaited fr then ej else [])))
   \<and> progress (stopRecording_interleaved fr ef ej (on_events evs s))
       = progress_after (progress (on_events evs s)) (ef @ (if json_awaited fr then ej else []))
   \<and> chapterTitles (stopRecording_interleaved fr ef ej (on_events evs s))
       = chapterTitles_after (chapterTitles (on_events evs s))
           (ef @ (if json_awaited fr then ej else []))
   \<and> stopRecording_interleaved fr [] [] (on_events evs s) = stopRecording fr (on_events evs s)
   \<and> transcripts (stopRecording fr (on_events evs s)) = transcripts (on_events evs s)
   \<and> progress (stopRecording fr (on_events evs s)) = progress (on_events evs s)
   \<and> chapterTitles (stopRecording fr (on_events evs s)) = chapterTitles (on_events evs s)"
proof -
  let ?s = "on_events evs s"
  let ?I = "startRecording_interleaved fr mr ef ej em ?s"
  let ?aw = "ef @ (if json_awaited fr then ej else []) @ em"
  let ?aw' = "ef @ (if json_awaited fr then ej else [])"
  have o: "dropWhile (\<lambda>t. effects t = effects ?s) (states_of startRecording_prefix ?s)
             = [exec startRecording_prefix ?s]"
    by (simp add: startRecording_prefix_def exec_def)
  have r: "transcripts (exec startRecording_prefix ?s) = []"
    "progress (exec startRecording_prefix ?s) = 0"
    "chapterTitles (exec startRecording_prefix ?s) = []"
    "effects (exec startRecording_prefix ?s)
       = effects ?s @ [HttpPost ''http://localhost:8000/start_transcription_ct'' (room ?s)]"
    by (simp_all add: startRecording_prefix_def exec_def)
  have i1: "transcripts (snd ?I) = concat (map segments_of ?aw)"
    by (cases fr rule: json_awaited.cases; cases mr)
       (simp_all add: interleaved_defs slice_simps)
  have i2: "progress (snd ?I) = progress_after 0 ?aw"
    by (cases fr rule: json_awaited.cases; cases mr)
       (simp_all add: interleaved_defs slice_simps)
  have i3: "chapterTitles (snd ?I) = chapterTitles_after [] ?aw"
    by (cases fr rule: json_awaited.cases; cases mr)
       (simp_all add: interleaved_defs slice_simps)
  have b: "startRecording_interleaved fr mr [] [] [] ?s = startRecording fr mr ?s"
    by (rule startRecording_interleaved_Nil)
  have a: "transcripts (snd (startRecording fr mr ?s)) = []"
    "progress (snd (startRecording fr mr ?s)) = 0"
    "chapterTitles (snd (startRecording fr mr ?s)) = []"
    by (cases fr; cases mr; simp add: start_defs)+
  have q1: "transcripts (stopRecording_interleaved fr ef ej ?s)
              = transcripts ?s @ concat (map segments_of ?aw')"
    by (cases fr rule: json_awaited.cases)
       (simp_all add: stopRecording_interleaved_def Let_def slice_simps split: option.splits)
  have q2: "progress (stopRecording_interleaved fr ef ej ?s)
              = progress_after (progress ?s) ?aw'"
    by (cases fr rule: json_awaited.cases)
       (simp_all add: stopRecording_interleaved_def Let_def slice_simps split: option.splits)
  have q3: "chapterTitles (stopRecording_interleaved fr ef ej ?s)
              = chapterTitles_after (chapterTitles ?s) ?aw'"
    by (cases fr rule: json_awaited.cases)
       (simp_all add: stopRecording_interleaved_def Let_def slice_simps split: option.splits)
  have qb: "stopRecording_interleaved fr [] [] ?s = stopRecording fr ?s"
    by (rule stopRecording_interleaved_Nil)
  have p: "transcripts (stopRecording fr ?s) = transcripts ?s"
    "progress (stopRecording fr ?s) = progress ?s"
    "chapterTitles (stopRecording fr ?s) = chapterTitles ?s"
    by (cases fr; simp add: stopRecording_def Let_def split: option.splits)+
  from o r i1 i2 i3 b a q1 q2 q3 qb p show ?thesis by blast
qed

section \<open>The transcript log\<close>

text \<open>
  C4: handling a sequence of partial and final transcript events appends one segment
  for each event, in the order of arrival: the log afterwards is the log before followed
  by the events' segments, so its first entries are the old ones unchanged, it has grown
  by the number of events, and from the empty log of a fresh component N events give a
  log of length N.
\<close>

theorem C4_append_only_log:
  assumes "list_all is_transcript_event evs"
  shows "transcripts (on_events evs s) = transcripts s @ concat (map segments_of evs)
   \<and> list_all (\<lambda>e. length (segments_of e) = 1) evs
   \<and> length (transcripts (on_events evs s)) = length (transcripts s) + length evs
   \<and> take (length (transcripts s)) (transcripts (on_events evs s)) = transcripts s
   \<and> length (transcripts (on_events evs (initial r))) = length evs"
proof -
  have a: "transcripts (on_events evs s) = transcripts s @ concat (map segments_of evs)"
    by (rule on_events_transcripts)
  have b: "list_all (\<lambda>e. length (segments_of e) = 1) evs"
    using assms by (induction evs) (simp_all add: segments_of_transcript_event)
  have n: "length (concat (map segments_of evs)) = length evs"
    using assms by (rule length_concat_segments)
  have c: "length (transcripts (on_events evs s)) = length (transcripts s) + length evs"
    using n by (simp add: on_events_transcripts)
  have d: "take (length (transcripts s)) (transcripts (on_events evs s)) = transcripts s"
    by (simp add: on_events_transcripts)
  have e: "length (transcripts (on_events evs (initial r))) = length evs"
    using n by (simp add: on_events_transcripts initial_def)
  from a b c d e show ?thesis by blast
qed

theorem C4_append_only_log_witness:
  "list_all is_transcript_event
     [partial_result \<lparr>p_transcript = None, p_text = Some ''hel'', p_speakerId = None\<rparr>,
      final_result \<lparr>p_transcript = None, p_text = Some ''hello'', p_speakerId = Some ''A''\<rparr>]
   \<and> transcripts (on_events
     [partial_result \<lparr>p_transcript = None, p_text = Some ''hel'', p_speakerId = None\<rparr>,
      final_result \<lparr>p_transcript = None, p_text = Some ''hello'', p_speakerId = Some ''A''\<rparr>]
     (initial ''room1''))
     = [\<lparr>seg_text = Some ''hel'', seg_speakerId = Some ''?''\<rparr>,
        \<lparr>seg_text = Some ''hello'', seg_speakerId = Some ''A''\<rparr>]"
  using C4_append_only_log [of
     "[partial_result \<lparr>p_transcript = None, p_text = Some ''hel'', p_speakerId = None\<rparr>,
       final_result \<lparr>p_transcript = None, p_text = Some ''hello'', p_speakerId = Some ''A''\<rparr>]"
     "initial ''room1''" "''room1''"]
  by (simp add: initial_def js_or_def)

text \<open>
  C5, as stated, asks that a segment in the log tells whether it came from a partial or
  from a final event. A \<open>partial_result\<close> and a \<open>final_result\<close> with the same payload
  leave the same log behind.
\<close>

theorem C5_no_finality_counterexample:
  "transcripts (on_event
      (partial_result \<lparr>p_transcript = None, p_text = Some ''hello'', p_speakerId = Some ''A''\<rparr>)
      (initial ''room1''))
   = transcripts (on_event
      (final_result \<lparr>p_transcript = None, p_text = Some ''hello'', p_speakerId = Some ''A''\<rparr>)
      (initial ''room1''))"
  by simp

text \<open>
  C5, amended: a segment in the log carries a text and a speaker id and nothing else.
  Partial and final events with the same payload have the same effect on the whole
  state, so the log does not tell them apart; \<open>transcribe_final\<close> differs from the
  other three only in taking its text from \<open>transcript\<close> first.
\<close>

theorem C5_partial_final_alike:
  "on_event (partial_result d) s = on_event (final_result d) s
   \<and> on_event (transcribe_partial d) s = on_event (final_result d) s
   \<and> on_event (transcribe_final (d\<lparr>p_transcript := None\<rparr>)) s
       = on_event (transcribe_partial (d\<lparr>p_transcript := None\<rparr>)) s
   \<and> transcripts (on_event (final_result d) s)
       = transcripts s @ [\<lparr>seg_text = p_text d, seg_speakerId = js_or (p_speakerId d) (Some ''?'')\<rparr>]"
  by (simp add: js_or_def)

section \<open>Failing control requests\<close>

text \<open>
  C6: when the control request fails (\<open>fetch\<close> or \<open>resp.json()\<close> rejects), the error is
  logged and the sequence goes on. \<open>startRecording\<close> still asks for the microphone and,
  given a stream, returns normally with a new recorder in \<open>recordRTCRef\<close> that is
  capturing; \<open>stopRecording\<close> still stops the recorder in \<open>recordRTCRef\<close>.
\<close>

theorem C6_control_failure_nonfatal:
  assumes "recordRTCRef s = Some rid" and "rid < length (recorders s)"
  shows "fst (startRecording (Failed f) (MediaGranted st) t) = Inr ()
   \<and> recordRTCRef (snd (startRecording (Failed f) (MediaGranted st) t))
       = Some (length (recorders t))
   \<and> recorders (snd (startRecording (Failed f) (MediaGranted st) t))
       = recorders t @ [\<lparr>r_stream = st, r_status = Recording\<rparr>]
   \<and> effects (snd (startRecording (Failed f) (MediaGranted st) t))
       = effects t @ [HttpPost ''http://localhost:8000/start_transcription_ct'' (room t),
                      ConsoleError ''Error calling /start_transcription_ct:'',
                      GetUserMedia]
   \<and> r_status (recorders (stopRecording (Failed f) s) ! rid) = Stopped
   \<and> recording (stopRecording (Failed f) s) = False
   \<and> effects (stopRecording (Failed f) s)
       = effects s @ [HttpPost ''http://localhost:8000/stop_transcription'' (room s),
                      ConsoleError ''Error calling /stop_transcription:'']"
  using assms
  by (simp add: start_defs stopRecording_def nth_append)

theorem C6_control_failure_nonfatal_witness:
  "recordRTCRef (snd (startRecording (Responded ''ok'') (MediaGranted 0)
       (useEffect_mount (initial ''room1'')))) = Some 0
   \<and> 0 < length (recorders (snd (startRecording (Responded ''ok'') (MediaGranted 0)
       (useEffect_mount (initial ''room1'')))))
   \<and> r_status (recorders (stopRecording (Failed FetchRejected)
       (snd (startRecording (Responded ''ok'') (MediaGranted 0)
          (useEffect_mount (initial ''room1''))))) ! 0) = Stopped
   \<and> fst (startRecording (Failed FetchRejected) (MediaGranted 0)
          (useEffect_mount (initial ''room1''))) = Inr ()"
  using C6_control_failure_nonfatal [of
    "snd (startRecording (Responded ''ok'') (MediaGranted 0)
       (useEffect_mount (initial ''room1'')))" 0 FetchRejected 0
    "useEffect_mount (initial ''room1'')"]
  by (simp add: start_defs useEffect_mount_def initial_def)

section \<open>What stop leaves alone\<close>

text \<open>
  C7: \<open>stopRecording\<close> leaves the socket and the three aggregated values as they are
  and disconnects nothing, so an event that arrives after it is still handled on the
  log as it stood. Clicks, events and chunks never change the socket; only the cleanup
  of the effect, run when the component goes away, disconnects it.
\<close>

theorem C7_stop_keeps_channel:
  "socketRef (stopRecording fr s) = socketRef s
   \<and> transcripts (stopRecording fr s) = transcripts s
   \<and> progress (stopRecording fr s) = progress s
   \<and> chapterTitles (stopRecording fr s) = chapterTitles s
   \<and> filter (\<lambda>e. e = SocketDisconnect) (effects (stopRecording fr s))
       = filter (\<lambda>e. e = SocketDisconnect) (effects s)
   \<and> dispatch (Receive e) (stopRecording fr s)
       = (if socketRef s = Some Connected then on_event e (stopRecording fr s)
          else stopRecording fr s)
   \<and> transcripts (on_event e (stopRecording fr s)) = transcripts s @ segments_of e
   \<and> socketRef (dispatch (ClickStart fr mr) s) = socketRef s
   \<and> socketRef (dispatch (ClickStop fr) s) = socketRef s
   \<and> socketRef (dispatch (Receive e) s) = socketRef s
   \<and> socketRef (dispatch (Chunk rid bytes) s) = socketRef s
   \<and> socketRef (dispatch Unmount (useEffect_mount s)) = Some Disconnected"
proof -
  have st: "socketRef (stopRecording fr s) = socketRef s"
    "transcripts (stopRecording fr s) = transcripts s"
    "progress (stopRecording fr s) = progress s"
    "chapterTitles (stopRecording fr s) = chapterTitles s"
    "filter (\<lambda>e. e = SocketDisconnect) (effects (stopRecording fr s))
       = filter (\<lambda>e. e = SocketDisconnect) (effects s)"
    by (cases fr; simp add: stopRecording_def Let_def split: option.splits)+
  have rc: "dispatch (Receive e) (stopRecording fr s)
       = (if socketRef s = Some Connected then on_event e (stopRecording fr s)
          else stopRecording fr s)"
    using st(1) by simp
  have tr: "transcripts (on_event e (stopRecording fr s)) = transcripts s @ segments_of e"
    using st(2) by (simp add: on_event_transcripts)
  have cs: "socketRef (dispatch (ClickStart fr mr) s) = socketRef s"
    by (cases fr; cases mr) (simp_all add: start_defs)
  have cp: "socketRef (dispatch (ClickStop fr) s) = socketRef s"
    using st(1) by simp
  have re: "socketRef (dispatch (Receive e) s) = socketRef s"
    by (cases e) simp_all
  have ch: "socketRef (dispatch (Chunk rid bytes) s) = socketRef s"
    by (simp add: ondataavailable_def split: option.splits)
  have un: "socketRef (dispatch Unmount (useEffect_mount s)) = Some Disconnected"
    by (simp add: useEffect_cleanup_def useEffect_mount_def)
  from st rc tr cs cp re ch un show ?thesis by blast
qed

section \<open>Missing fields\<close>

text \<open>
  C8: a \<open>transcribe_final\<close> event without \<open>transcript\<close> and with \<open>text\<close> appends a
  segment whose text is that of \<open>text\<close>, and each of the four transcript events without
  \<open>speakerId\<close> appends a segment whose speaker id is the sentinel \<open>?\<close>; nothing is
  rejected.
\<close>

theorem C8_fallback_fields:
  "transcripts (on_event
      (transcribe_final \<lparr>p_transcript = None, p_text = Some t, p_speakerId = sp\<rparr>) s)
     = transcripts s @ [\<lparr>seg_text = Some t, seg_speakerId = js_or sp (Some ''?'')\<rparr>]
   \<and> transcripts (on_event (partial_result (d\<lparr>p_speakerId := None\<rparr>)) s)
     = transcripts s @ [\<lparr>seg_text = p_text d, seg_speakerId = Some ''?''\<rparr>]
   \<and> transcripts (on_event (final_result (d\<lparr>p_speakerId := None\<rparr>)) s)
     = transcripts s @ [\<lparr>seg_text = p_text d, seg_speakerId = Some ''?''\<rparr>]
   \<and> transcripts (on_event (transcribe_partial (d\<lparr>p_speakerId := None\<rparr>)) s)
     = transcripts s @ [\<lparr>seg_text = p_text d, seg_speakerId = Some ''?''\<rparr>]
   \<and> transcripts (on_event (transcribe_final (d\<lparr>p_speakerId := None\<rparr>)) s)
     = transcripts s @ [\<lparr>seg_text = js_or (p_transcript d) (p_text d),
                         seg_speakerId = Some ''?''\<rparr>]"
  by (simp add: js_or_def)

section \<open>Progress\<close>

text \<open>
  C9: a \<open>transcription_progress\<close> event stores the received value as it is, whatever
  the value (also outside 0 to 100) and whatever was stored before; after a sequence of
  events that ends with a progress event the stored value is that event's, and after the
  values 10, 45, 30 it is 30.
\<close>

theorem C9_progress_overwrite:
  "progress (on_event (transcription_progress v) s) = v
   \<and> progress (on_events (evs @ [transcription_progress v]) s) = v
   \<and> progress (on_events [transcription_progress 10, transcription_progress 45,
                           transcription_progress 30] s) = 30
   \<and> progress (on_event (transcription_progress 250) s) = 250
   \<and> progress (on_event (transcription_progress (- 1)) s) = - 1"
  by (simp add: on_events_def)

section \<open>Start while recording\<close>

text \<open>
  C10: \<open>startRecording\<close> has no check of the recording flag. Called while recording,
  with a capturing recorder in \<open>recordRTCRef\<close>, it clears the log, the progress and the
  chapter titles whatever happens next and, given a stream, puts a new capturing
  recorder in \<open>recordRTCRef\<close>; the recorder that was there is not stopped, it still
  captures next to the new one, and a later \<open>stopRecording\<close> stops the new one only.
\<close>

theorem C10_start_while_recording:
  assumes "recording s" and "recordRTCRef s = Some old" and "old < length (recorders s)"
    and "r_status (recorders s ! old) = Recording"
  shows "transcripts (snd (startRecording fr mr s)) = []
   \<and> progress (snd (startRecording fr mr s)) = 0
   \<and> chapterTitles (snd (startRecording fr mr s)) = []
   \<and> fst (startRecording fr (MediaGranted st) s) = Inr ()
   \<and> recordRTCRef (snd (startRecording fr (MediaGranted st) s)) = Some (length (recorders s))
   \<and> length (recorders s) \<noteq> old
   \<and> recorders (snd (startRecording fr (MediaGranted st) s))
       = recorders s @ [\<lparr>r_stream = st, r_status = Recording\<rparr>]
   \<and> r_status (recorders (snd (startRecording fr (MediaGranted st) s)) ! old) = Recording
   \<and> r_status (recorders (stopRecording fr' (snd (startRecording fr (MediaGranted st) s))) ! old)
       = Recording
   \<and> r_status (recorders (stopRecording fr' (snd (startRecording fr (MediaGranted st) s)))
        ! length (recorders s)) = Stopped"
proof -
  let ?t = "snd (startRecording fr (MediaGranted st) s)"
  have a: "transcripts (snd (startRecording fr mr s)) = []"
    "progress (snd (startRecording fr mr s)) = 0"
    "chapterTitles (snd (startRecording fr mr s)) = []"
    by (cases fr; cases mr; simp add: start_defs)+
  have b: "fst (startRecording fr (MediaGranted st) s) = Inr ()"
    by (simp add: start_defs)
  have c: "recordRTCRef ?t = Some (length (recorders s))"
    by (cases fr) (simp_all add: start_defs)
  have d: "length (recorders s) \<noteq> old"
    using assms(3) by simp
  have e: "recorders ?t = recorders s @ [\<lparr>r_stream = st, r_status = Recording\<rparr>]"
    by (cases fr) (simp_all add: start_defs)
  have f: "r_status (recorders ?t ! old) = Recording"
    using assms(3,4) by (simp add: e nth_append)
  have g: "recorders (stopRecording fr' ?t)
             = (recorders ?t)[length (recorders s) :=
                  (recorders ?t ! length (recorders s))\<lparr>r_status := Stopped\<rparr>]"
    using c e by (cases fr') (simp_all add: stopRecording_def Let_def)
  have h: "r_status (recorders (stopRecording fr' ?t) ! old) = Recording"
    using assms(3,4) d by (simp add: g e nth_append)
  have i: "r_status (recorders (stopRecording fr' ?t) ! length (recorders s)) = Stopped"
    by (simp add: g e)
  from a b c d e f h i show ?thesis by blast
qed

theorem C10_start_while_recording_witness:
  "recording (snd (startRecording (Responded ''ok'') (MediaGranted 0)
       (useEffect_mount (initial ''room1''))))
   \<and> recordRTCRef (snd (startRecording (Responded ''ok'') (MediaGranted 0)
       (useEffect_mount (initial ''room1'')))) = Some 0
   \<and> r_status (recorders (snd (startRecording (Responded ''ok'') (MediaGranted 0)
       (useEffect_mount (initial ''room1'')))) ! 0) = Recording
   \<and> recorders (snd (startRecording (Responded ''ok'') (MediaGranted 1)
       (snd (startRecording (Responded ''ok'') (MediaGranted 0)
          (useEffect_mount (initial ''room1''))))))
       = [\<lparr>r_stream = 0, r_status = Recording\<rparr>, \<lparr>r_stream = 1, r_status = Recording\<rparr>]
   \<and> recordRTCRef (snd (startRecording (Responded ''ok'') (MediaGranted 1)
       (snd (startRecording (Responded ''ok'') (MediaGranted 0)
          (useEffect_mount (initial ''room1'')))))) = Some 1"
  using C10_start_while_recording [of
    "snd (startRecording (Responded ''ok'') (MediaGranted 0)
       (useEffect_mount (initial ''room1'')))" 0 "Responded ''ok''" "MediaGranted 1" 1
    "Responded ''ok''"]
  by (simp add: start_defs useEffect_mount_def initial_def)

end
